theory Spec2Isabelle
  imports Complex_Main "HOL-Library.Multiset"
begin

section \<open>Bus positions: the tables of \<open>create_animated_map.ipynb\<close>\<close>

text \<open>
  The notebook works on pandas tables. A table is modelled as the list of its rows, in
  row order; an indexed table as the list of pairs of index label and row. Identifiers
  (\<open>trip_id\<close>, \<open>shape_id\<close>) are only compared for equality and, for shapes, ordered, so
  they are numbers here. \<open>update_time\<close> is a Unix timestamp in whole seconds, and a
  datetime is the number of seconds since the epoch of its (naive) clock. The key columns
  \<open>trip_id\<close> and \<open>update_time\<close> hold a value in every row; a coordinate column may hold
  a missing value (pandas' NaN), which is \<open>None\<close>.
\<close>

type_synonym point = "real \<times> real"

record position_record =
  trip_id :: nat
  update_time :: int
  longitude :: "real option"
  latitude :: "real option"

text \<open>
  The caller's table \<open>df\<close>: the rows read from the database and the column
  \<open>update_datetime\<close>, which is absent (\<open>None\<close>) until an assignment
  \<open>df['update_datetime'] = ...\<close> creates it, one entry per row.
\<close>

record positions_frame =
  records :: "position_record list"
  update_datetime :: "int list option"

text \<open>
  A row of the resampled table. Resampling makes every column nullable: the row of an
  empty bin holds a missing value in each column.
\<close>

record sampled_row =
  s_trip_id :: "nat option"
  s_update_time :: "int option"
  s_longitude :: "real option"
  s_latitude :: "real option"

text \<open>A row of the GeoDataFrame: the resampled columns and the \<open>geometry\<close> column.\<close>

record geo_row = sampled_row +
  geometry :: "point option"

subsection \<open>pandas operations used by the notebook\<close>

text \<open>
  \<open>Series.unique()\<close> and \<open>DataFrame.drop_duplicates()\<close> (all columns, \<open>keep='first'\<close>):
  the values in order of first appearance, every later repetition removed.
\<close>

fun unique :: "'a list \<Rightarrow> 'a list" where
  "unique [] = []"
| "unique (x # xs) = x # unique (filter (\<lambda>y. y \<noteq> x) xs)"

definition drop_duplicates :: "position_record list \<Rightarrow> position_record list" where
  "drop_duplicates rs = unique rs"

text \<open>\<open>pd.to_datetime(_, unit='s')\<close> on whole seconds, and \<open>pd.offsets.Hour(n)\<close> in seconds.\<close>

definition to_datetime :: "int \<Rightarrow> int" where
  "to_datetime s = s"

definition Hour :: "int \<Rightarrow> int" where
  "Hour n = 3600 * n"

definition set_index :: "int list \<Rightarrow> 'a list \<Rightarrow> (int \<times> 'a) list" where
  "set_index col rs = zip col rs"

text \<open>
  \<open>sort_index()\<close>: rows in ascending order of the index label. Rows with equal labels
  keep their relative order here; pandas' default sort promises no order among them, and
  no theorem below depends on the order chosen among equal labels of different content.
\<close>

definition sort_index :: "(int \<times> 'a) list \<Rightarrow> (int \<times> 'a) list" where
  "sort_index df = sort_key fst df"

text \<open>
  \<open>resample('60s')\<close>: bins of 60 seconds whose edges are multiples of 60 seconds on the
  index clock, from the bin of the smallest label to the bin of the largest label, every
  bin in between included whether or not a row falls into it. A table without rows has
  no bins.
\<close>

definition floor_60s :: "int \<Rightarrow> int" where
  "floor_60s t = 60 * (t div 60)"

definition bins :: "int \<Rightarrow> int \<Rightarrow> int list" where
  "bins lo hi = map (\<lambda>k. lo + 60 * int k) [0 ..< Suc (nat ((hi - lo) div 60))]"

text \<open>\<open>.first()\<close> of one column of one bin: the first value that is not missing.\<close>

fun first_valid :: "'a option list \<Rightarrow> 'a option" where
  "first_valid [] = None"
| "first_valid (None # vs) = first_valid vs"
| "first_valid (Some v # vs) = Some v"

definition bin_rows :: "(int \<times> position_record) list \<Rightarrow> int \<Rightarrow> position_record list" where
  "bin_rows slice b = map snd (filter (\<lambda>ir. floor_60s (fst ir) = b) slice)"

definition bin_first :: "(int \<times> position_record) list \<Rightarrow> int \<Rightarrow> int \<times> sampled_row" where
  "bin_first slice b =
     (let grp = bin_rows slice b in
      (b, \<lparr> s_trip_id = first_valid (map (\<lambda>r. Some (trip_id r)) grp),
            s_update_time = first_valid (map (\<lambda>r. Some (update_time r)) grp),
            s_longitude = first_valid (map longitude grp),
            s_latitude = first_valid (map latitude grp) \<rparr>))"

text \<open>\<open>slice.resample('60s').first()\<close> on a table sorted by its index.\<close>

definition resample_60s_first :: "(int \<times> position_record) list \<Rightarrow> (int \<times> sampled_row) list" where
  "resample_60s_first slice =
     (case slice of
        [] \<Rightarrow> []
      | ir # _ \<Rightarrow> map (bin_first slice) (bins (floor_60s (fst ir)) (floor_60s (fst (last slice)))))"

subsection \<open>geopandas operations used by the notebook\<close>

text \<open>
  \<open>points_from_xy\<close> builds one point per row; a row with a missing coordinate has no
  position. \<open>to_crs\<close> applies the projection from EPSG:4326 to EPSG:3857 to every
  geometry; the transform itself belongs to the projection library and is the parameter
  \<open>proj\<close> throughout.
\<close>

definition points_from_xy :: "real option \<Rightarrow> real option \<Rightarrow> point option" where
  "points_from_xy x y =
     (case x of None \<Rightarrow> None | Some a \<Rightarrow> (case y of None \<Rightarrow> None | Some b \<Rightarrow> Some (a, b)))"

definition GeoDataFrame :: "(int \<times> sampled_row) list \<Rightarrow> (int \<times> geo_row) list" where
  "GeoDataFrame df =
     map (\<lambda>ir. (fst ir, sampled_row.extend (snd ir)
                  \<lparr> geometry = points_from_xy (s_longitude (snd ir)) (s_latitude (snd ir)) \<rparr>)) df"

definition to_crs :: "(point \<Rightarrow> point) \<Rightarrow> (int \<times> geo_row) list \<Rightarrow> (int \<times> geo_row) list" where
  "to_crs proj gdf = map (\<lambda>ir. (fst ir, (snd ir)\<lparr> geometry := map_option proj (geometry (snd ir)) \<rparr>)) gdf"

subsection \<open>Reading and preprocessing the bus positions\<close>

text \<open>Cell 3: \<open>df = pd.read_sql(query, engine); df = df.drop_duplicates()\<close>.\<close>

definition read_positions :: "position_record list \<Rightarrow> positions_frame" where
  "read_positions table = \<lparr> records = drop_duplicates table, update_datetime = None \<rparr>"

text \<open>
  The sampling loop of \<open>preprocessing_positions\<close>: for each trip, the rows of that trip
  are resampled and appended to the accumulator \<open>df_sampled\<close>.
\<close>

fun sample_trips ::
  "(int \<times> position_record) list \<Rightarrow> nat list \<Rightarrow> (int \<times> sampled_row) list \<Rightarrow> (int \<times> sampled_row) list"
where
  "sample_trips df [] df_sampled = df_sampled"
| "sample_trips df (trip # trips) df_sampled =
     sample_trips df trips
       (df_sampled @ resample_60s_first (filter (\<lambda>ir. trip_id (snd ir) = trip) df))"

text \<open>
  \<open>preprocessing_positions(df)\<close>. The two assignments to \<open>df['update_datetime']\<close> write
  into the table the caller passed; \<open>df = df.set_index(...)\<close> and everything after it
  work on new tables. The function returns the GeoDataFrame together with the caller's
  table as the call leaves it.
\<close>

definition preprocessing_positions ::
  "(point \<Rightarrow> point) \<Rightarrow> positions_frame \<Rightarrow> (int \<times> geo_row) list \<times> positions_frame"
where
  "preprocessing_positions proj df =
     (let df1 = df\<lparr> update_datetime := Some (map (\<lambda>r. to_datetime (update_time r)) (records df)) \<rparr>;
          col = map (\<lambda>r. to_datetime (update_time r) + Hour (- 7)) (records df1);
          df2 = df1\<lparr> update_datetime := Some col \<rparr>;
          indexed = sort_index (set_index col (records df2));
          df_sampled = sample_trips indexed (unique (map (\<lambda>ir. trip_id (snd ir)) indexed)) [];
          gdf = to_crs proj (GeoDataFrame df_sampled)
      in (sort_index gdf, df2))"

text \<open>Cells 3 and 6 together: the Position Normalizer on the table read from the database.\<close>

definition position_normalizer ::
  "(point \<Rightarrow> point) \<Rightarrow> position_record list \<Rightarrow> (int \<times> geo_row) list"
where
  "position_normalizer proj table = fst (preprocessing_positions proj (read_positions table))"


definition sample_bin :: "position_record \<Rightarrow> int" where
  \<comment> \<open>the 60-second bin of a raw record on the display clock\<close>
  "sample_bin r = floor_60s (to_datetime (update_time r) + Hour (- 7))"

section \<open>Bus lines\<close>

text \<open>
  A row of \<open>shapes.txt\<close>; the rows come in path order. Exceptions are values: a function
  that can raise returns \<open>exn + 'a\<close>, with \<open>Inl\<close> the exception.
\<close>

record shape_point =
  shape_id :: nat
  shape_pt_lon :: real
  shape_pt_lat :: real

datatype exn =
    ValueError string
  | FileNotFoundError string
  | RuntimeError string
  | ExternalError string

text \<open>
  shapely's \<open>LineString\<close> constructor accepts no single point: one coordinate raises
  \<open>ValueError\<close>. (No coordinates give the empty geometry; a group never has none.)
\<close>

definition LineString :: "point list \<Rightarrow> exn + point list" where
  "LineString pts =
     (if length pts = 1 then Inl (ValueError ''LineStrings must have at least 2 coordinate tuples'')
      else Inr pts)"

text \<open>
  \<open>groupby(['shape_id'])\<close>: one pass over the rows that appends each row's value to the
  group of its key, a new key opening a new group; the groups are then ordered by key.
\<close>

fun add_to_group :: "nat \<Rightarrow> 'a \<Rightarrow> (nat \<times> 'a list) list \<Rightarrow> (nat \<times> 'a list) list" where
  "add_to_group k v [] = [(k, [v])]"
| "add_to_group k v ((k', vs) # gs) =
     (if k = k' then (k', vs @ [v]) # gs else (k', vs) # add_to_group k v gs)"

definition groupby :: "(nat \<times> 'a) list \<Rightarrow> (nat \<times> 'a list) list" where
  "groupby rows = sort_key fst (fold (\<lambda>kv gs. add_to_group (fst kv) (snd kv) gs) rows [])"

text \<open>
  \<open>.apply(f)\<close> on the groups, in key order: an exception raised by \<open>f\<close> on any group
  ends the whole \<open>apply\<close>.
\<close>

fun apply_groups :: "('a \<Rightarrow> exn + 'b) \<Rightarrow> (nat \<times> 'a) list \<Rightarrow> exn + (nat \<times> 'b) list" where
  "apply_groups f [] = Inr []"
| "apply_groups f (kg # gs) =
     (case f (snd kg) of
        Inl e \<Rightarrow> Inl e
      | Inr v \<Rightarrow> (case apply_groups f gs of Inl e \<Rightarrow> Inl e | Inr vs \<Rightarrow> Inr ((fst kg, v) # vs)))"

text \<open>
  \<open>preprocessing_lines(df)\<close>: a point per row, a \<open>LineString\<close> per \<open>shape_id\<close>, then the
  projection of every vertex. The result is indexed by \<open>shape_id\<close>.
\<close>

definition preprocessing_lines ::
  "(point \<Rightarrow> point) \<Rightarrow> shape_point list \<Rightarrow> exn + (nat \<times> point list) list"
where
  "preprocessing_lines proj df =
     (let tmp = map (\<lambda>r. (shape_id r, (shape_pt_lon r, shape_pt_lat r))) df in
      case apply_groups LineString (groupby tmp) of
        Inl e \<Rightarrow> Inl e
      | Inr gdf \<Rightarrow> Inr (map (\<lambda>kl. (fst kl, map proj (snd kl))) gdf))"

section \<open>Maps and GIF\<close>

text \<open>
  The file system maps a path to the content of the file there. What an image shows is
  left open (the type \<open>'img\<close>): drawing, the basemap tiles and the encoding belong to the
  plotting libraries. \<open>render\<close> stands for the drawing of one figure from what the
  notebook hands to those libraries (the axis limits, \<open>gdf_lines\<close>, the rows
  \<open>gdf_pos.loc[i]\<close> and the time label), and may raise.
\<close>

datatype 'img file_data = Png 'img | Gif "'img list" nat

type_synonym 'img filesystem = "string \<rightharpoonup> 'img file_data"

record frame_spec =
  xlim :: "int \<times> int"
  ylim :: "int \<times> int"
  lines :: "(nat \<times> point list) list"
  positions :: "(int \<times> geo_row) list"
  label :: string

text \<open>\<open>strftime\<close> on a datetime in seconds: \<open>%H\<close> and \<open>%M\<close>, two digits each.\<close>

definition two_digits :: "nat \<Rightarrow> string" where
  "two_digits n = [''0123456789'' ! (n div 10 mod 10), ''0123456789'' ! (n mod 10)]"

definition hour :: "int \<Rightarrow> nat" where
  "hour t = nat (t div 3600 mod 24)"

definition minute :: "int \<Rightarrow> nat" where
  "minute t = nat (t div 60 mod 60)"

definition strftime_H_M :: "int \<Rightarrow> string" where
  \<comment> \<open>\<open>i.strftime("%H:%M")\<close>\<close>
  "strftime_H_M t = two_digits (hour t) @ '':'' @ two_digits (minute t)"

definition strftime_HM :: "int \<Rightarrow> string" where
  \<comment> \<open>\<open>i.strftime("%H%M")\<close>\<close>
  "strftime_HM t = two_digits (hour t) @ two_digits (minute t)"

definition frame_file :: "string \<Rightarrow> int \<Rightarrow> string" where
  \<comment> \<open>\<open>f'{path_images}/{i.strftime("%H%M")}.png'\<close>\<close>
  "frame_file path_images i = path_images @ ''/'' @ strftime_HM i @ ''.png''"

definition index_unique :: "(int \<times> 'a) list \<Rightarrow> int list" where
  \<comment> \<open>\<open>gdf_pos.index.unique()\<close>\<close>
  "index_unique gdf = unique (map fst gdf)"

definition loc :: "(int \<times> 'a) list \<Rightarrow> int \<Rightarrow> (int \<times> 'a) list" where
  \<comment> \<open>\<open>gdf_pos.loc[i]\<close>: the rows labelled \<open>i\<close>\<close>
  "loc gdf i = filter (\<lambda>ir. fst ir = i) gdf"

text \<open>
  The loop of \<open>create_maps\<close> over the distinct index labels. An exception while a
  figure is drawn ends the loop; the files saved before it stay. \<open>gdf_lines\<close> and
  \<open>gdf_pos\<close> are globals of the notebook and parameters here.
\<close>

fun create_maps_loop ::
  "(frame_spec \<Rightarrow> exn + 'img) \<Rightarrow> (nat \<times> point list) list \<Rightarrow> (int \<times> geo_row) list \<Rightarrow>
   int \<times> int \<Rightarrow> int \<times> int \<Rightarrow> string \<Rightarrow> int list \<Rightarrow> 'img filesystem \<Rightarrow>
   (exn + unit) \<times> 'img filesystem"
where
  "create_maps_loop render gdf_lines gdf_pos xl yl path_images [] fs = (Inr (), fs)"
| "create_maps_loop render gdf_lines gdf_pos xl yl path_images (i # is) fs =
     (case render \<lparr> xlim = xl, ylim = yl, lines = gdf_lines, positions = loc gdf_pos i,
                    label = strftime_H_M i \<rparr> of
        Inl e \<Rightarrow> (Inl e, fs)
      | Inr img \<Rightarrow>
          create_maps_loop render gdf_lines gdf_pos xl yl path_images is
            (fs(frame_file path_images i \<mapsto> Png img)))"

definition create_maps ::
  "(frame_spec \<Rightarrow> exn + 'img) \<Rightarrow> (nat \<times> point list) list \<Rightarrow> (int \<times> geo_row) list \<Rightarrow>
   int \<times> int \<Rightarrow> int \<times> int \<Rightarrow> string \<Rightarrow> 'img filesystem \<Rightarrow> (exn + unit) \<times> 'img filesystem"
where
  "create_maps render gdf_lines gdf_pos xl yl path_images fs =
     create_maps_loop render gdf_lines gdf_pos xl yl path_images (index_unique gdf_pos) fs"

text \<open>
  \<open>imageio.imread\<close>: no file at the path raises \<open>FileNotFoundError\<close>; otherwise the
  first image of the file is returned.
\<close>

definition imread :: "'img filesystem \<Rightarrow> string \<Rightarrow> exn + 'img" where
  "imread fs path =
     (case fs path of
        None \<Rightarrow> Inl (FileNotFoundError path)
      | Some (Png img) \<Rightarrow> Inr img
      | Some (Gif imgs fps) \<Rightarrow>
          (case imgs of [] \<Rightarrow> Inl (ValueError path) | img # _ \<Rightarrow> Inr img))"

text \<open>
  \<open>imageio.mimsave\<close>: the images become one animated file at the path. Without any image
  it raises (the file system is taken as unchanged then).
\<close>

definition mimsave ::
  "string \<Rightarrow> 'img list \<Rightarrow> nat \<Rightarrow> 'img filesystem \<Rightarrow> (exn + unit) \<times> 'img filesystem"
where
  "mimsave path imgs fps fs =
     (if imgs = [] then (Inl (RuntimeError ''Zero images were written.''), fs)
      else (Inr (), fs(path \<mapsto> Gif imgs fps)))"

text \<open>The reading loop of \<open>create_gif\<close>, with its accumulator \<open>list_of_images\<close>.\<close>

fun read_images :: "'img filesystem \<Rightarrow> string \<Rightarrow> int list \<Rightarrow> 'img list \<Rightarrow> exn + 'img list" where
  "read_images fs path_images [] list_of_images = Inr list_of_images"
| "read_images fs path_images (i # is) list_of_images =
     (case imread fs (frame_file path_images i) of
        Inl e \<Rightarrow> Inl e
      | Inr img \<Rightarrow> read_images fs path_images is (list_of_images @ [img]))"

definition create_gif ::
  "(int \<times> geo_row) list \<Rightarrow> string \<Rightarrow> string \<Rightarrow> 'img filesystem \<Rightarrow>
   (exn + unit) \<times> 'img filesystem"
where
  "create_gif gdf_pos path_images path_gif fs =
     (case read_images fs path_images (index_unique gdf_pos) [] of
        Inl e \<Rightarrow> (Inl e, fs)
      | Inr list_of_images \<Rightarrow> mimsave path_gif list_of_images 10 fs)"

subsection \<open>The notebook's configuration and calls (cells 10 to 15)\<close>

definition ylim_greater_portland :: "int \<times> int" where
  "ylim_greater_portland = (5665000, 5725000)"

definition xlim_greater_portland :: "int \<times> int" where
  "xlim_greater_portland = (- 13707000, - 13615000)"

definition ylim_downtown :: "int \<times> int" where
  "ylim_downtown = (5698000, 5708000)"

definition xlim_downtown :: "int \<times> int" where
  "xlim_downtown = (- 13660000, - 13650000)"

definition path_images_greater_portland :: string where
  "path_images_greater_portland = ''data/greater_portland''"

definition path_images_downtown :: string where
  "path_images_downtown = ''data/downtown''"

text \<open>Running one cell after another: the first exception ends the run.\<close>

definition and_then ::
  "(exn + unit) \<times> 'img filesystem \<Rightarrow> ('img filesystem \<Rightarrow> (exn + unit) \<times> 'img filesystem) \<Rightarrow>
   (exn + unit) \<times> 'img filesystem"
where
  "and_then res cell = (case fst res of Inl e \<Rightarrow> (Inl e, snd res) | Inr _ \<Rightarrow> cell (snd res))"

definition cells_11_to_15 ::
  "(frame_spec \<Rightarrow> exn + 'img) \<Rightarrow> (nat \<times> point list) list \<Rightarrow> (int \<times> geo_row) list \<Rightarrow>
   'img filesystem \<Rightarrow> (exn + unit) \<times> 'img filesystem"
where
  "cells_11_to_15 render gdf_lines gdf_pos fs =
     and_then (and_then (and_then
       (create_maps render gdf_lines gdf_pos xlim_greater_portland ylim_greater_portland
          path_images_greater_portland fs)
       (create_maps render gdf_lines gdf_pos xlim_downtown ylim_downtown path_images_downtown))
       (create_gif gdf_pos path_images_downtown ''data/greater_portland.gif''))
       (create_gif gdf_pos path_images_downtown ''data/downtown.gif'')"


section \<open>Notions used in the statements\<close>

text \<open>
  What the statements and proofs below speak about: the values of one key in row order,
  the source points of one shape in row order, the display time of a record, a trip's part
  of the indexed and sorted table, a resampled row with its projected point, a bin that
  holds a record of a trip, a bin without a record of a trip between two bins that hold
  one, and the row whose columns are all missing.
\<close>

definition group_values :: "nat \<Rightarrow> (nat \<times> 'a) list \<Rightarrow> 'a list" where
  "group_values k rows = map snd (filter (\<lambda>kv. fst kv = k) rows)"

definition shape_source_points :: "nat \<Rightarrow> shape_point list \<Rightarrow> point list" where
  "shape_source_points sid df =
     map (\<lambda>r. (shape_pt_lon r, shape_pt_lat r)) (filter (\<lambda>r. shape_id r = sid) df)"

definition local_time :: "position_record \<Rightarrow> int" where
  "local_time r = to_datetime (update_time r) + Hour (- 7)"

definition geo :: "(point \<Rightarrow> point) \<Rightarrow> int \<times> sampled_row \<Rightarrow> int \<times> geo_row" where
  "geo proj ir =
     (fst ir, \<lparr> s_trip_id = s_trip_id (snd ir), s_update_time = s_update_time (snd ir),
                s_longitude = s_longitude (snd ir), s_latitude = s_latitude (snd ir),
                geometry = map_option proj (points_from_xy (s_longitude (snd ir)) (s_latitude (snd ir))) \<rparr>)"

definition trip_slice :: "positions_frame \<Rightarrow> nat \<Rightarrow> (int \<times> position_record) list" where
  "trip_slice df trip =
     filter (\<lambda>ir. trip_id (snd ir) = trip) (sort_key fst (map (\<lambda>r. (local_time r, r)) (records df)))"

definition observed :: "positions_frame \<Rightarrow> nat \<Rightarrow> int \<Rightarrow> bool" where
  "observed df trip b \<longleftrightarrow> (\<exists>r \<in> set (records df). trip_id r = trip \<and> sample_bin r = b)"

definition gap :: "positions_frame \<Rightarrow> nat \<Rightarrow> int \<Rightarrow> bool" where
  "gap df trip b \<longleftrightarrow>
     floor_60s b = b \<and> \<not> observed df trip b \<and>
     (\<exists>r1 \<in> set (records df). \<exists>r2 \<in> set (records df).
        trip_id r1 = trip \<and> trip_id r2 = trip \<and> sample_bin r1 < b \<and> b < sample_bin r2)"

definition null_row :: geo_row where
  "null_row = \<lparr> s_trip_id = None, s_update_time = None, s_longitude = None, s_latitude = None,
                geometry = None \<rparr>"

section \<open>Concrete inputs\<close>

definition one_record :: "position_record list" where
  "one_record = [\<lparr> trip_id = 7, update_time = 25205, longitude = Some 1, latitude = Some 2 \<rparr>]"

definition single_and_pair :: "shape_point list" where
  "single_and_pair =
     [\<lparr> shape_id = 1, shape_pt_lon = 10, shape_pt_lat = 20 \<rparr>,
      \<lparr> shape_id = 2, shape_pt_lon = 11, shape_pt_lat = 21 \<rparr>,
      \<lparr> shape_id = 2, shape_pt_lon = 12, shape_pt_lat = 22 \<rparr>]"

definition shape_abc :: "shape_point list" where
  "shape_abc =
     [\<lparr> shape_id = 5, shape_pt_lon = 3, shape_pt_lat = 30 \<rparr>,
      \<lparr> shape_id = 5, shape_pt_lon = 1, shape_pt_lat = 10 \<rparr>,
      \<lparr> shape_id = 5, shape_pt_lon = 2, shape_pt_lat = 20 \<rparr>]"

definition shift_east :: "point \<Rightarrow> point" where
  \<comment> \<open>a stand-in for the projection in concrete evaluations\<close>
  "shift_east p = (fst p + 100, snd p)"

definition bus :: geo_row where
  "bus = \<lparr> s_trip_id = Some 7, s_update_time = Some 54000, s_longitude = Some 1,
           s_latitude = Some 2, geometry = Some (101, 2) \<rparr>"

definition one_minute :: "(int \<times> geo_row) list" where
  "one_minute = [(28800, bus)]"

definition two_minutes :: "(int \<times> geo_row) list" where
  "two_minutes = [(28800, bus), (28860, bus)]"


definition gap_records :: "position_record list" where
  "gap_records =
     [\<lparr> trip_id = 7, update_time = 54005, longitude = Some 1, latitude = Some 2 \<rparr>,
      \<lparr> trip_id = 7, update_time = 54130, longitude = Some 3, latitude = Some 4 \<rparr>]"



section \<open>Removing duplicates\<close>

lemma set_unique: "set (unique xs) = set xs"
  by (induction xs rule: unique.induct) auto

lemma distinct_unique: "distinct (unique xs)"
  by (induction xs rule: unique.induct) (auto simp: set_unique)

lemma unique_append_mem: "x \<in> set xs \<Longrightarrow> unique (xs @ [x]) = unique xs"
  by (induction xs rule: unique.induct) auto

text \<open>
  C7. Appending to the table read from the database an exact copy of a record it already
  holds does not change the output of the Position Normalizer (cell 3's
  \<open>drop_duplicates\<close> followed by \<open>preprocessing_positions\<close>).
\<close>

theorem duplicate_record_invariant:
  assumes "r \<in> set table"
  shows "position_normalizer proj (table @ [r]) = position_normalizer proj table"
proof -
  from assms have "drop_duplicates (table @ [r]) = drop_duplicates table"
    unfolding drop_duplicates_def by (rule unique_append_mem)
  then have "read_positions (table @ [r]) = read_positions table"
    by (simp add: read_positions_def)
  then show ?thesis by (simp only: position_normalizer_def)
qed

theorem duplicate_record_invariant_witness:
  "\<lparr> trip_id = 7, update_time = 25205, longitude = Some 1, latitude = Some 2 \<rparr> \<in> set one_record \<and>
   position_normalizer id
     (one_record @ [\<lparr> trip_id = 7, update_time = 25205, longitude = Some 1, latitude = Some 2 \<rparr>])
     = position_normalizer id one_record"
  using duplicate_record_invariant
    [of "\<lparr> trip_id = 7, update_time = 25205, longitude = Some 1, latitude = Some 2 \<rparr>" one_record id]
  by (simp add: one_record_def)

section \<open>The caller's table\<close>

text \<open>
  C9, as the claim states it, fails: after \<open>preprocessing_positions\<close> the table the caller
  passed is not what it was before the call.
\<close>

theorem caller_table_changed:
  "snd (preprocessing_positions id (read_positions one_record)) \<noteq> read_positions one_record"
  by (simp add: preprocessing_positions_def read_positions_def one_record_def Let_def)

text \<open>
  C9, amended. \<open>preprocessing_positions\<close> adds the column \<open>update_datetime\<close> to the
  caller's table (for each row its \<open>update_time\<close> moved by minus seven hours, in row
  order) and changes nothing else of it: the rows, their fields and their order stay.
\<close>

theorem caller_table_gains_column:
  "snd (preprocessing_positions proj df)
     = df\<lparr> update_datetime := Some (map (\<lambda>r. update_time r - 25200) (records df)) \<rparr>"
proof -
  have shifted: "to_datetime (update_time r) + Hour (- 7) = update_time r - 25200" for r
    by (simp add: to_datetime_def Hour_def)
  have "snd (preprocessing_positions proj df)
      = df\<lparr> update_datetime :=
            Some (map (\<lambda>r. to_datetime (update_time r) + Hour (- 7)) (records df)) \<rparr>"
    by (simp add: preprocessing_positions_def Let_def)
  then show ?thesis by (simp only: shifted)
qed

section \<open>Resampling to one position per minute\<close>

lemma sample_trips_concat:
  "sample_trips df trips acc =
     acc @ concat (map (\<lambda>trip. resample_60s_first (filter (\<lambda>ir. trip_id (snd ir) = trip) df)) trips)"
  by (induction trips arbitrary: acc) simp_all

lemma to_crs_GeoDataFrame: "to_crs proj (GeoDataFrame df) = map (geo proj) df"
  by (simp add: to_crs_def GeoDataFrame_def geo_def sampled_row.extend_def comp_def)

lemma zip_map_self: "zip (map f xs) xs = map (\<lambda>x. (f x, x)) xs"
  by (induction xs) simp_all

lemma trips_of_indexed:
  "set (unique (map (\<lambda>ir. trip_id (snd ir)) (sort_key fst (map (\<lambda>r. (local_time r, r)) rs))))
     = trip_id ` set rs"
  by (force simp add: set_unique)

lemma preprocessing_positions_fst:
  "\<exists>trips. distinct trips \<and> set trips = trip_id ` set (records df) \<and>
     fst (preprocessing_positions proj df)
       = sort_key fst (map (geo proj)
           (concat (map (\<lambda>trip. resample_60s_first (trip_slice df trip)) trips)))"
proof -
  let ?I = "sort_key fst (map (\<lambda>r. (local_time r, r)) (records df))"
  let ?trips = "unique (map (\<lambda>ir. trip_id (snd ir)) ?I)"
  have "fst (preprocessing_positions proj df)
       = sort_key fst (map (geo proj)
           (concat (map (\<lambda>trip. resample_60s_first (trip_slice df trip)) ?trips)))"
    by (simp add: preprocessing_positions_def Let_def sort_index_def set_index_def zip_map_self
        sample_trips_concat to_crs_GeoDataFrame trip_slice_def local_time_def)
  moreover have "distinct ?trips" by (rule distinct_unique)
  moreover have "set ?trips = trip_id ` set (records df)" by (rule trips_of_indexed)
  ultimately show ?thesis by blast
qed

lemma set_trip_slice:
  "set (trip_slice df trip) = (\<lambda>r. (local_time r, r)) ` {r \<in> set (records df). trip_id r = trip}"
  by (auto simp: trip_slice_def)

lemma sorted_trip_slice: "sorted (map fst (trip_slice df trip))"
  unfolding trip_slice_def by (rule sorted_filter) simp

lemma bin_rows_set:
  "set (bin_rows (trip_slice df trip) b)
     = {r \<in> set (records df). trip_id r = trip \<and> sample_bin r = b}"
  by (auto simp: bin_rows_def set_trip_slice sample_bin_def local_time_def image_iff)

lemma floor_60s_mono: "x \<le> y \<Longrightarrow> floor_60s x \<le> floor_60s y"
  by (simp add: floor_60s_def zdiv_mono1)

lemma floor_60s_idem: "floor_60s (floor_60s x) = floor_60s x"
  by (simp add: floor_60s_def)

lemma bins_sixty: "bins (60 * L) (60 * H) = map (\<lambda>k. 60 * (L + int k)) [0 ..< Suc (nat (H - L))]"
proof -
  have "60 * H - 60 * L = 60 * (H - L)" by (simp only: right_diff_distrib)
  then have "(60 * H - 60 * L) div 60 = H - L" by simp
  then show ?thesis by (simp only: bins_def distrib_left)
qed

lemma bins_member:
  assumes "lo \<le> hi" and lo: "floor_60s lo = lo" and hi: "floor_60s hi = hi"
  shows "b \<in> set (bins lo hi) \<longleftrightarrow> lo \<le> b \<and> b \<le> hi \<and> floor_60s b = b"
proof -
  define L H where "L = lo div 60" and "H = hi div 60"
  have lo60: "lo = 60 * L" and hi60: "hi = 60 * H"
    using lo hi by (simp_all add: floor_60s_def L_def H_def)
  from assms(1) have LH: "L \<le> H" by (simp add: lo60 hi60)
  show ?thesis
  proof
    assume "b \<in> set (bins lo hi)"
    then obtain k where k: "k \<le> nat (H - L)" and b: "b = 60 * (L + int k)"
      by (auto simp: lo60 hi60 bins_sixty less_Suc_eq_le simp del: upt_Suc)
    from k LH have "L + int k \<le> H" by linarith
    then show "lo \<le> b \<and> b \<le> hi \<and> floor_60s b = b"
      by (simp add: b lo60 hi60 floor_60s_def)
  next
    assume a: "lo \<le> b \<and> b \<le> hi \<and> floor_60s b = b"
    define B where "B = b div 60"
    from a have b60: "b = 60 * B" by (simp add: floor_60s_def B_def)
    from a have LB: "L \<le> B" and BH: "B \<le> H" by (simp_all add: b60 lo60 hi60)
    have "b = 60 * (L + int (nat (B - L)))" using LB by (simp add: b60)
    moreover have "nat (B - L) < Suc (nat (H - L))" using LB BH by linarith
    ultimately show "b \<in> set (bins lo hi)"
      unfolding lo60 hi60 bins_sixty by (auto simp del: upt_Suc intro!: image_eqI [where x = "nat (B - L)"])
  qed
qed


lemma first_valid_Some_map:
  "first_valid (map (\<lambda>r. Some (f r)) rs) = (case rs of [] \<Rightarrow> None | r # _ \<Rightarrow> Some (f r))"
  by (cases rs) simp_all

lemma fst_bin_first: "fst (bin_first slice b) = b"
  by (simp add: bin_first_def Let_def)

lemma bin_first_empty:
  "bin_rows slice b = [] \<Longrightarrow>
   bin_first slice b = (b, \<lparr> s_trip_id = None, s_update_time = None, s_longitude = None, s_latitude = None \<rparr>)"
  by (simp add: bin_first_def)

lemma bin_first_trip_id:
  "s_trip_id (snd (bin_first slice b))
     = (case bin_rows slice b of [] \<Rightarrow> None | r # _ \<Rightarrow> Some (trip_id r))"
  by (simp add: bin_first_def Let_def first_valid_Some_map)




lemma sample_bin_local: "sample_bin r = floor_60s (local_time r)"
  by (simp add: sample_bin_def local_time_def)

lemma floor_sample_bin: "floor_60s (sample_bin r) = sample_bin r"
  by (simp add: sample_bin_def floor_60s_idem)

lemma sorted_le_last: "sorted (map f xs) \<Longrightarrow> x \<in> set xs \<Longrightarrow> f x \<le> f (last xs)"
  by (induction xs) (auto split: if_splits)

lemma sorted_hd_le: "sorted (map f xs) \<Longrightarrow> x \<in> set xs \<Longrightarrow> f (hd xs) \<le> f x"
  by (cases xs) auto

lemma resample_trip_slice:
  assumes "trip \<in> trip_id ` set (records df)"
  shows "\<exists>r1 r2.
    resample_60s_first (trip_slice df trip)
      = map (bin_first (trip_slice df trip)) (bins (sample_bin r1) (sample_bin r2)) \<and>
    r1 \<in> set (records df) \<and> trip_id r1 = trip \<and>
    r2 \<in> set (records df) \<and> trip_id r2 = trip \<and>
    (\<forall>r \<in> set (records df). trip_id r = trip \<longrightarrow>
       sample_bin r1 \<le> sample_bin r \<and> sample_bin r \<le> sample_bin r2)"
proof -
  let ?S = "trip_slice df trip"
  from assms have ne: "?S \<noteq> []"
    using set_trip_slice [of df trip] by (auto simp: set_empty [symmetric] simp del: set_empty)
  then have hdS: "hd ?S \<in> set ?S" and lastS: "last ?S \<in> set ?S" by simp_all
  from hdS obtain r1 where r1: "r1 \<in> set (records df)" "trip_id r1 = trip"
    and h: "hd ?S = (local_time r1, r1)" by (auto simp: set_trip_slice)
  from lastS obtain r2 where r2: "r2 \<in> set (records df)" "trip_id r2 = trip"
    and l: "last ?S = (local_time r2, r2)" by (auto simp: set_trip_slice)
  from ne have "resample_60s_first ?S
      = map (bin_first ?S) (bins (floor_60s (fst (hd ?S))) (floor_60s (fst (last ?S))))"
    by (cases ?S) (simp_all add: resample_60s_first_def)
  then have res: "resample_60s_first ?S = map (bin_first ?S) (bins (sample_bin r1) (sample_bin r2))"
    by (simp add: h l sample_bin_local)
  have bnd: "sample_bin r1 \<le> sample_bin r \<and> sample_bin r \<le> sample_bin r2"
    if "r \<in> set (records df)" "trip_id r = trip" for r
  proof -
    from that have m: "(local_time r, r) \<in> set ?S" by (simp add: set_trip_slice)
    from sorted_hd_le [OF sorted_trip_slice m] have "local_time r1 \<le> local_time r"
      by (simp add: h)
    moreover from sorted_le_last [OF sorted_trip_slice m] have "local_time r \<le> local_time r2"
      by (simp add: l)
    ultimately show ?thesis by (simp add: sample_bin_local floor_60s_mono)
  qed
  from res r1 r2 bnd show ?thesis by blast
qed

lemma geo_fields:
  "fst (geo proj ir) = fst ir"
  "s_trip_id (snd (geo proj ir)) = s_trip_id (snd ir)"
  "s_update_time (snd (geo proj ir)) = s_update_time (snd ir)"
  "s_longitude (snd (geo proj ir)) = s_longitude (snd ir)"
  "s_latitude (snd (geo proj ir)) = s_latitude (snd ir)"
  "geometry (snd (geo proj ir))
     = map_option proj (points_from_xy (s_longitude (snd ir)) (s_latitude (snd ir)))"
  by (simp_all add: geo_def)

lemma geo_null:
  "geo proj (b, \<lparr> s_trip_id = None, s_update_time = None, s_longitude = None, s_latitude = None \<rparr>)
     = (b, null_row)"
  by (simp add: geo_def null_row_def points_from_xy_def)

lemma output_rows:
  "set (fst (preprocessing_positions proj df))
     = (\<Union>trip \<in> trip_id ` set (records df).
          geo proj ` set (resample_60s_first (trip_slice df trip)))"
proof -
  from preprocessing_positions_fst [of df proj] obtain trips where
    t: "set trips = trip_id ` set (records df)" and
    o: "fst (preprocessing_positions proj df)
       = sort_key fst (map (geo proj)
           (concat (map (\<lambda>trip. resample_60s_first (trip_slice df trip)) trips)))"
    by blast
  show ?thesis unfolding o by (auto simp: t [symmetric])
qed

lemma bin_rows_empty_iff:
  "bin_rows (trip_slice df trip) b = [] \<longleftrightarrow> \<not> observed df trip b"
  using bin_rows_set [of df trip b]
  by (auto simp: observed_def set_empty [symmetric] simp del: set_empty)

lemma bin_rows_head:
  assumes "bin_rows (trip_slice df trip) b = r # rs"
  shows "r \<in> set (records df) \<and> trip_id r = trip \<and> sample_bin r = b"
proof -
  from assms have "r \<in> set (bin_rows (trip_slice df trip) b)" by simp
  then show ?thesis by (simp add: bin_rows_set)
qed

lemma trip_rows:
  assumes "trip \<in> trip_id ` set (records df)"
  shows "\<exists>lo hi. observed df trip lo \<and> observed df trip hi \<and> lo \<le> hi \<and>
           (\<forall>r \<in> set (records df). trip_id r = trip \<longrightarrow> lo \<le> sample_bin r \<and> sample_bin r \<le> hi) \<and>
           resample_60s_first (trip_slice df trip) = map (bin_first (trip_slice df trip)) (bins lo hi) \<and>
           set (bins lo hi) = {b. lo \<le> b \<and> b \<le> hi \<and> floor_60s b = b}"
proof -
  from resample_trip_slice [OF assms] obtain r1 r2 where
    res: "resample_60s_first (trip_slice df trip)
      = map (bin_first (trip_slice df trip)) (bins (sample_bin r1) (sample_bin r2))"
    and r1: "r1 \<in> set (records df)" "trip_id r1 = trip"
    and r2: "r2 \<in> set (records df)" "trip_id r2 = trip"
    and bnd: "\<forall>r \<in> set (records df). trip_id r = trip \<longrightarrow>
       sample_bin r1 \<le> sample_bin r \<and> sample_bin r \<le> sample_bin r2"
    by blast
  from bnd r2 have le: "sample_bin r1 \<le> sample_bin r2" by blast
  have "set (bins (sample_bin r1) (sample_bin r2))
      = {b. sample_bin r1 \<le> b \<and> b \<le> sample_bin r2 \<and> floor_60s b = b}"
    using bins_member [OF le floor_sample_bin floor_sample_bin] by blast
  moreover from r1 have "observed df trip (sample_bin r1)" by (auto simp: observed_def)
  moreover from r2 have "observed df trip (sample_bin r2)" by (auto simp: observed_def)
  ultimately show ?thesis using res bnd le by blast
qed

lemma observed_row:
  assumes "observed df trip b"
  shows "\<exists>row. (b, row) \<in> set (fst (preprocessing_positions proj df)) \<and> s_trip_id row = Some trip"
proof -
  let ?S = "trip_slice df trip"
  from assms obtain r where r: "r \<in> set (records df)" "trip_id r = trip" "sample_bin r = b"
    by (auto simp: observed_def)
  then have trip: "trip \<in> trip_id ` set (records df)" by auto
  from trip_rows [OF trip] obtain lo hi where
    bnd: "\<forall>r \<in> set (records df). trip_id r = trip \<longrightarrow> lo \<le> sample_bin r \<and> sample_bin r \<le> hi"
    and res: "resample_60s_first ?S = map (bin_first ?S) (bins lo hi)"
    and bs: "set (bins lo hi) = {b. lo \<le> b \<and> b \<le> hi \<and> floor_60s b = b}"
    by blast
  from bnd r have "b \<in> set (bins lo hi)"
    unfolding bs using floor_sample_bin [of r] by auto
  then have "bin_first ?S b \<in> set (resample_60s_first ?S)" unfolding res by simp
  with trip have m: "geo proj (bin_first ?S b) \<in> set (fst (preprocessing_positions proj df))"
    unfolding output_rows by blast
  from assms obtain q qs where q: "bin_rows ?S b = q # qs"
    using bin_rows_empty_iff [of df trip b] by (cases "bin_rows ?S b") auto
  from bin_rows_head [OF q] have "s_trip_id (snd (bin_first ?S b)) = Some trip"
    by (simp add: bin_first_trip_id q)
  then have "s_trip_id (snd (geo proj (bin_first ?S b))) = Some trip"
    by (simp add: geo_fields)
  moreover have "fst (geo proj (bin_first ?S b)) = b" by (simp add: geo_fields fst_bin_first)
  ultimately show ?thesis using m by (metis prod.collapse)
qed

lemma row_origin:
  assumes "(b, row) \<in> set (fst (preprocessing_positions proj df))"
  shows "\<exists>trip lo hi. observed df trip lo \<and> observed df trip hi \<and> lo \<le> b \<and> b \<le> hi \<and>
           floor_60s b = b \<and> (b, row) = geo proj (bin_first (trip_slice df trip) b)"
proof -
  from assms obtain trip x where trip: "trip \<in> trip_id ` set (records df)"
    and x: "x \<in> set (resample_60s_first (trip_slice df trip))" and g: "(b, row) = geo proj x"
    unfolding output_rows by blast
  let ?S = "trip_slice df trip"
  from trip_rows [OF trip] obtain lo hi where
    o: "observed df trip lo" "observed df trip hi"
    and res: "resample_60s_first ?S = map (bin_first ?S) (bins lo hi)"
    and bs: "set (bins lo hi) = {b. lo \<le> b \<and> b \<le> hi \<and> floor_60s b = b}"
    by blast
  from x obtain b' where b': "b' \<in> set (bins lo hi)" and xb: "x = bin_first ?S b'"
    unfolding res by auto
  from g xb have "b = b'" by (metis fst_conv geo_fields(1) fst_bin_first)
  with b' bs o g xb show ?thesis by blast
qed

lemma row_with_trip:
  assumes "(b, row) \<in> set (fst (preprocessing_positions proj df))" and "s_trip_id row = Some trip"
  shows "observed df trip b"
proof -
  from row_origin [OF assms(1)] obtain trip' where
    g: "(b, row) = geo proj (bin_first (trip_slice df trip') b)" by blast
  then have "s_trip_id row = s_trip_id (snd (bin_first (trip_slice df trip') b))"
    by (metis geo_fields(2) snd_conv)
  with assms(2) obtain r rs where q: "bin_rows (trip_slice df trip') b = r # rs" and "trip_id r = trip"
    by (auto simp: bin_first_trip_id split: list.splits)
  with bin_rows_head [OF q] show ?thesis by (auto simp: observed_def)
qed

lemma gap_row:
  assumes "gap df trip b"
  shows "(b, null_row) \<in> set (fst (preprocessing_positions proj df))"
proof -
  let ?S = "trip_slice df trip"
  from assms obtain r1 r2 where fb: "floor_60s b = b" and no: "\<not> observed df trip b"
    and r1: "r1 \<in> set (records df)" "trip_id r1 = trip" "sample_bin r1 < b"
    and r2: "r2 \<in> set (records df)" "trip_id r2 = trip" "b < sample_bin r2"
    by (auto simp: gap_def)
  from r1 have trip: "trip \<in> trip_id ` set (records df)" by auto
  from trip_rows [OF trip] obtain lo hi where
    bnd: "\<forall>r \<in> set (records df). trip_id r = trip \<longrightarrow> lo \<le> sample_bin r \<and> sample_bin r \<le> hi"
    and res: "resample_60s_first ?S = map (bin_first ?S) (bins lo hi)"
    and bs: "set (bins lo hi) = {b. lo \<le> b \<and> b \<le> hi \<and> floor_60s b = b}"
    by blast
  from bnd r1 r2 fb have "b \<in> set (bins lo hi)" unfolding bs by force
  then have "bin_first ?S b \<in> set (resample_60s_first ?S)" unfolding res by simp
  with trip have "geo proj (bin_first ?S b) \<in> set (fst (preprocessing_positions proj df))"
    unfolding output_rows by blast
  moreover from no have "bin_rows ?S b = []" by (simp add: bin_rows_empty_iff)
  ultimately show ?thesis by (simp add: bin_first_empty geo_null)
qed

lemma row_without_trip:
  assumes "(b, row) \<in> set (fst (preprocessing_positions proj df))" and "s_trip_id row = None"
  shows "row = null_row \<and> (\<exists>trip. gap df trip b)"
proof -
  from row_origin [OF assms(1)] obtain trip lo hi where
    o: "observed df trip lo" "observed df trip hi" and b: "lo \<le> b" "b \<le> hi" "floor_60s b = b"
    and g: "(b, row) = geo proj (bin_first (trip_slice df trip) b)" by blast
  from g have "s_trip_id row = s_trip_id (snd (bin_first (trip_slice df trip) b))"
    by (metis geo_fields(2) snd_conv)
  with assms(2) have e: "bin_rows (trip_slice df trip) b = []"
    by (auto simp: bin_first_trip_id split: list.splits)
  with g have row: "row = null_row" by (simp add: bin_first_empty geo_null)
  from e have no: "\<not> observed df trip b" by (simp add: bin_rows_empty_iff)
  with o b have "lo < b" "b < hi" by (auto simp: le_less)
  with o no b(3) have "gap df trip b" by (auto simp: gap_def observed_def)
  with row show ?thesis by blast
qed

lemmas normalizer_eval =
  position_normalizer_def preprocessing_positions_def read_positions_def drop_duplicates_def
  to_datetime_def Hour_def set_index_def sort_index_def resample_60s_first_def bins_def
  floor_60s_def bin_first_def bin_rows_def GeoDataFrame_def to_crs_def points_from_xy_def
  sampled_row.extend_def shift_east_def Let_def upt_rec comp_def

subsection \<open>Bins without a record\<close>

text \<open>
  C1, as the claim states it, fails: a trip seen at 08:00:05 and at 08:02:10 has no raw
  record in the bin of 08:01, and the output holds a row at 08:01 all the same, with a
  missing value in every column.
\<close>

theorem empty_bin_yields_null_row:
  "position_normalizer shift_east gap_records =
     [(28800, \<lparr> s_trip_id = Some 7, s_update_time = Some 54005, s_longitude = Some 1,
                s_latitude = Some 2, geometry = Some (101, 2) \<rparr>),
      (28860, \<lparr> s_trip_id = None, s_update_time = None, s_longitude = None,
                s_latitude = None, geometry = None \<rparr>),
      (28920, \<lparr> s_trip_id = Some 7, s_update_time = Some 54130, s_longitude = Some 3,
                s_latitude = Some 4, geometry = Some (103, 4) \<rparr>)] \<and>
   \<not> (\<exists>r \<in> set gap_records. sample_bin r = 28860)"
  by (simp add: gap_records_def normalizer_eval sample_bin_def)

text \<open>
  C1, amended. The output holds a row carrying a trip's id at a bin exactly when that bin
  holds a raw record of the trip. Nothing is forward-filled: a bin without a record of the
  trip that lies between two bins with records of it yields a row at that timestamp whose
  columns are all missing (the trip id too), and every row of the output without a trip id
  is such a row.
\<close>

theorem sampled_rows_and_placeholders:
  "((\<exists>row. (b, row) \<in> set (fst (preprocessing_positions proj df)) \<and> s_trip_id row = Some trip)
      \<longleftrightarrow> observed df trip b) \<and>
   (gap df trip b \<longrightarrow> (b, null_row) \<in> set (fst (preprocessing_positions proj df))) \<and>
   ((b, row) \<in> set (fst (preprocessing_positions proj df)) \<and> s_trip_id row = None
      \<longrightarrow> row = null_row \<and> (\<exists>trip'. gap df trip' b))"
  using observed_row [of df trip b proj] row_with_trip [of b _ proj df trip]
    gap_row [of df trip b proj] row_without_trip [of b row proj df]
  by blast

theorem sampled_rows_and_placeholders_witness:
  "gap (read_positions gap_records) 7 28860 \<and>
   (28860, null_row) \<in> set (fst (preprocessing_positions shift_east (read_positions gap_records))) \<and>
   s_trip_id null_row = None \<and>
   \<not> observed (read_positions gap_records) 7 28860"
  using sampled_rows_and_placeholders [of 28860 shift_east "read_positions gap_records" 7 null_row]
  by (simp add: gap_def observed_def gap_records_def read_positions_def drop_duplicates_def
      sample_bin_def floor_60s_def to_datetime_def Hour_def null_row_def)

subsection \<open>Bins with records\<close>









section \<open>Grouping by shape\<close>

lemma keys_add_to_group': "set (map fst (add_to_group k v gs)) = insert k (set (map fst gs))"
  by (induction k v gs rule: add_to_group.induct) auto

lemma keys_add_to_group: "fst ` set (add_to_group k v gs) = insert k (fst ` set gs)"
  using keys_add_to_group' [of k v gs] by simp

lemma distinct_add_to_group:
  "distinct (map fst gs) \<Longrightarrow> distinct (map fst (add_to_group k v gs))"
proof (induction gs)
  case Nil
  then show ?case by simp
next
  case (Cons g gs)
  obtain k' vs where g: "g = (k', vs)" by (cases g)
  have "k \<noteq> k' \<Longrightarrow> k' \<notin> fst ` set (add_to_group k v gs)"
    using Cons.prems by (simp add: keys_add_to_group g)
  with Cons show ?case by (auto simp: g)
qed

lemma map_of_add_to_group:
  "distinct (map fst gs) \<Longrightarrow>
   map_of (add_to_group k v gs) k' =
     (if k' = k then Some (case map_of gs k of None \<Rightarrow> [v] | Some vs \<Rightarrow> vs @ [v])
      else map_of gs k')"
proof (induction gs)
  case Nil
  then show ?case by simp
next
  case (Cons g gs)
  obtain a vs where g: "g = (a, vs)" by (cases g)
  from Cons show ?case by (auto simp: g)
qed

lemma fold_add_to_group:
  "distinct (map fst gs) \<Longrightarrow>
   distinct (map fst (fold (\<lambda>kv gs. add_to_group (fst kv) (snd kv) gs) rows gs)) \<and>
   map_of (fold (\<lambda>kv gs. add_to_group (fst kv) (snd kv) gs) rows gs) k =
     (case map_of gs k of
        None \<Rightarrow> if k \<in> fst ` set rows then Some (group_values k rows) else None
      | Some vs \<Rightarrow> Some (vs @ group_values k rows))"
proof (induction rows arbitrary: gs)
  case Nil
  then show ?case by (simp add: group_values_def split: option.split)
next
  case (Cons kv rows)
  have d: "distinct (map fst (add_to_group (fst kv) (snd kv) gs))"
    using Cons.prems by (rule distinct_add_to_group)
  show ?case
    using Cons.IH [OF d] Cons.prems
    by (auto simp: map_of_add_to_group group_values_def split: option.splits)
qed

lemma distinct_keys_sort_key: "distinct (map fst (sort_key fst gs)) = distinct (map fst gs)"
proof -
  have "mset (map fst (sort_key fst gs)) = mset (map fst gs)" by simp
  then show ?thesis by (rule mset_eq_imp_distinct_iff)
qed

lemma map_of_sort_key: "distinct (map fst gs) \<Longrightarrow> map_of (sort_key fst gs) = map_of gs"
  by (rule map_of_inject_set [THEN iffD2]) (simp_all add: distinct_keys_sort_key)

lemma groupby_distinct: "distinct (map fst (groupby rows))"
  using fold_add_to_group [of "[]" rows]
  by (simp add: groupby_def distinct_keys_sort_key)

lemma groupby_lookup:
  "map_of (groupby rows) k = (if k \<in> fst ` set rows then Some (group_values k rows) else None)"
  using fold_add_to_group [of "[]" rows k]
  by (simp add: groupby_def map_of_sort_key)

lemma groupby_keys: "fst ` set (groupby rows) = fst ` set rows"
proof -
  have "dom (map_of (groupby rows)) = fst ` set rows"
    by (auto simp: groupby_lookup dom_def)
  then show ?thesis by (simp add: dom_map_of_conv_image_fst)
qed

lemma groupby_sorted: "sorted (map fst (groupby rows))"
  by (simp add: groupby_def)

lemma apply_groups_LineString:
  "apply_groups LineString gs =
     (if \<exists>kg \<in> set gs. length (snd kg) = 1
      then Inl (ValueError ''LineStrings must have at least 2 coordinate tuples'')
      else Inr gs)"
  by (induction gs) (auto simp: LineString_def)

lemma group_values_points:
  "group_values sid (map (\<lambda>r. (shape_id r, (shape_pt_lon r, shape_pt_lat r))) df)
     = shape_source_points sid df"
  by (simp add: group_values_def shape_source_points_def filter_map comp_def)

lemma preprocessing_lines_cases:
  "preprocessing_lines proj df =
     (if \<exists>r \<in> set df. length (shape_source_points (shape_id r) df) = 1
      then Inl (ValueError ''LineStrings must have at least 2 coordinate tuples'')
      else Inr (map (\<lambda>kl. (fst kl, map proj (snd kl)))
                  (groupby (map (\<lambda>r. (shape_id r, (shape_pt_lon r, shape_pt_lat r))) df))))"
proof -
  let ?tmp = "map (\<lambda>r. (shape_id r, (shape_pt_lon r, shape_pt_lat r))) df"
  have "(\<exists>kg \<in> set (groupby ?tmp). length (snd kg) = 1)
          \<longleftrightarrow> (\<exists>r \<in> set df. length (shape_source_points (shape_id r) df) = 1)"
  proof
    assume "\<exists>kg \<in> set (groupby ?tmp). length (snd kg) = 1"
    then obtain k g where kg: "(k, g) \<in> set (groupby ?tmp)" and len: "length g = 1" by auto
    from kg have "map_of (groupby ?tmp) k = Some g"
      by (simp add: groupby_distinct)
    then have "k \<in> fst ` set ?tmp" and "g = group_values k ?tmp"
      by (auto simp: groupby_lookup split: if_splits)
    then show "\<exists>r \<in> set df. length (shape_source_points (shape_id r) df) = 1"
      using len by (auto simp: group_values_points)
  next
    assume "\<exists>r \<in> set df. length (shape_source_points (shape_id r) df) = 1"
    then obtain r where r: "r \<in> set df" and len: "length (shape_source_points (shape_id r) df) = 1"
      by auto
    from r have "shape_id r \<in> fst ` set ?tmp" by force
    then have "map_of (groupby ?tmp) (shape_id r) = Some (shape_source_points (shape_id r) df)"
      by (simp add: groupby_lookup group_values_points)
    then have "(shape_id r, shape_source_points (shape_id r) df) \<in> set (groupby ?tmp)"
      by (rule map_of_SomeD)
    with len show "\<exists>kg \<in> set (groupby ?tmp). length (snd kg) = 1" by force
  qed
  then show ?thesis
    by (simp add: preprocessing_lines_def apply_groups_LineString)
qed

lemma map_of_project:
  "map_of (map (\<lambda>kl. (fst kl, f (snd kl))) gs) k = map_option f (map_of gs k)"
  by (induction gs) auto

section \<open>Shapes with a single point\<close>

text \<open>
  C3, as the claim states it, fails: with one shape of a single point in the table, no
  geometry is produced for any shape, also not for the shape with two points.
\<close>

theorem short_shape_aborts_batch_example:
  "preprocessing_lines shift_east single_and_pair
     = Inl (ValueError ''LineStrings must have at least 2 coordinate tuples'')"
  by (simp add: preprocessing_lines_cases single_and_pair_def shape_source_points_def)

text \<open>
  C3, amended. When the group of some shape has fewer than 2 points, the exception of the
  \<open>LineString\<close> constructor ends \<open>preprocessing_lines\<close>: the whole batch fails and no
  geometry is returned.
\<close>

theorem short_shape_aborts_batch:
  assumes "r \<in> set df" and "length (shape_source_points (shape_id r) df) < 2"
  shows "preprocessing_lines proj df
           = Inl (ValueError ''LineStrings must have at least 2 coordinate tuples'')"
proof -
  from assms(1) have "shape_source_points (shape_id r) df \<noteq> []"
    by (auto simp: shape_source_points_def filter_empty_conv)
  with assms(2) have "length (shape_source_points (shape_id r) df) = 1"
    by (cases "shape_source_points (shape_id r) df") auto
  with assms(1) show ?thesis
    by (auto simp: preprocessing_lines_cases)
qed

theorem short_shape_aborts_batch_witness:
  "\<lparr> shape_id = 1, shape_pt_lon = 10, shape_pt_lat = 20 \<rparr> \<in> set single_and_pair \<and>
   length (shape_source_points 1 single_and_pair) < 2 \<and>
   preprocessing_lines shift_east single_and_pair
     = Inl (ValueError ''LineStrings must have at least 2 coordinate tuples'')"
  using short_shape_aborts_batch
    [of "\<lparr> shape_id = 1, shape_pt_lon = 10, shape_pt_lat = 20 \<rparr>" single_and_pair shift_east]
  by (simp add: single_and_pair_def shape_source_points_def)

section \<open>Vertex order of the bus lines\<close>

text \<open>
  C6. When every shape has at least two points, \<open>preprocessing_lines\<close> returns one
  geometry per \<open>shape_id\<close>, and the vertices of each are the projections of that shape's
  source points in the order of the source rows: nothing is reordered or removed.
\<close>

theorem route_vertex_order:
  assumes "\<forall>r \<in> set df. 2 \<le> length (shape_source_points (shape_id r) df)"
  shows "\<exists>gdf. preprocessing_lines proj df = Inr gdf \<and>
           distinct (map fst gdf) \<and> fst ` set gdf = shape_id ` set df \<and>
           (\<forall>r \<in> set df. map_of gdf (shape_id r)
                            = Some (map proj (shape_source_points (shape_id r) df)))"
proof -
  let ?tmp = "map (\<lambda>r. (shape_id r, (shape_pt_lon r, shape_pt_lat r))) df"
  let ?gdf = "map (\<lambda>kl. (fst kl, map proj (snd kl))) (groupby ?tmp)"
  from assms have "\<not> (\<exists>r \<in> set df. length (shape_source_points (shape_id r) df) = 1)"
    by fastforce
  then have res: "preprocessing_lines proj df = Inr ?gdf"
    by (simp add: preprocessing_lines_cases)
  have keys: "map fst ?gdf = map fst (groupby ?tmp)" by (simp add: comp_def)
  have d: "distinct (map fst ?gdf)" unfolding keys by (rule groupby_distinct)
  have "set (map fst ?gdf) = shape_id ` set df"
    unfolding keys using groupby_keys [of ?tmp] by (simp add: image_image)
  then have k: "fst ` set ?gdf = shape_id ` set df" by (simp only: set_map)
  have l: "map_of ?gdf (shape_id r) = Some (map proj (shape_source_points (shape_id r) df))"
    if "r \<in> set df" for r
  proof -
    from that have "shape_id r \<in> fst ` set ?tmp" by force
    then show ?thesis
      by (simp add: map_of_project groupby_lookup group_values_points)
  qed
  from res d k l show ?thesis by blast
qed

theorem route_vertex_order_witness:
  "2 \<le> length (shape_source_points 5 shape_abc) \<and>
   (\<exists>gdf. preprocessing_lines shift_east shape_abc = Inr gdf \<and>
          map_of gdf 5 = Some [shift_east (3, 30), shift_east (1, 10), shift_east (2, 20)])"
  using route_vertex_order [of shape_abc shift_east]
  by (auto simp add: shape_abc_def shape_source_points_def)

section \<open>Frames on the file system\<close>

lemma set_index_unique: "set (index_unique gdf) = fst ` set gdf"
  by (simp add: index_unique_def set_unique)


lemma create_maps_loop_other:
  "p \<notin> frame_file path_images ` set is \<Longrightarrow>
   snd (create_maps_loop render gdf_lines gdf_pos xl yl path_images is fs) p = fs p"
  by (induction "is" arbitrary: fs) (auto split: sum.splits)


lemma create_maps_loop_written:
  "fst (create_maps_loop render gdf_lines gdf_pos xl yl path_images is fs) = Inr () \<Longrightarrow>
   i \<in> set is \<Longrightarrow>
   \<exists>img. snd (create_maps_loop render gdf_lines gdf_pos xl yl path_images is fs)
            (frame_file path_images i) = Some (Png img)"
proof (induction "is" arbitrary: fs i)
  case Nil
  then show ?case by simp
next
  case (Cons j js)
  from Cons.prems(1) obtain img where
    r: "render \<lparr> xlim = xl, ylim = yl, lines = gdf_lines, positions = loc gdf_pos j,
                  label = strftime_H_M j \<rparr> = Inr img"
    by (auto split: sum.splits)
  let ?fs = "fs(frame_file path_images j \<mapsto> Png img)"
  from r have step: "create_maps_loop render gdf_lines gdf_pos xl yl path_images (j # js) fs
      = create_maps_loop render gdf_lines gdf_pos xl yl path_images js ?fs"
    by simp
  from Cons.prems(1)
  have ok: "fst (create_maps_loop render gdf_lines gdf_pos xl yl path_images js ?fs) = Inr ()"
    unfolding step .
  show ?case
  proof (cases "i \<in> set js")
    case True
    from Cons.IH [OF ok True] show ?thesis unfolding step .
  next
    case False
    with Cons.prems(2) have ij: "i = j" by simp
    show ?thesis
    proof (cases "frame_file path_images j \<in> frame_file path_images ` set js")
      case True
      then obtain k where k: "k \<in> set js"
        and jk: "frame_file path_images j = frame_file path_images k"
        by auto
      from Cons.IH [OF ok k] show ?thesis unfolding step ij jk .
    next
      case False
      then have "snd (create_maps_loop render gdf_lines gdf_pos xl yl path_images js ?fs)
          (frame_file path_images j) = ?fs (frame_file path_images j)"
        by (rule create_maps_loop_other)
      then show ?thesis unfolding step ij by simp
    qed
  qed
qed


lemma read_images_ok:
  "\<forall>i \<in> set is. \<exists>img. fs (frame_file path_images i) = Some (Png img) \<Longrightarrow>
   \<exists>imgs. read_images fs path_images is acc = Inr (acc @ imgs) \<and> length imgs = length is"
proof (induction "is" arbitrary: acc)
  case Nil
  then show ?case by simp
next
  case (Cons j js)
  then obtain img where img: "fs (frame_file path_images j) = Some (Png img)" by auto
  from Cons.prems have "\<forall>i \<in> set js. \<exists>img. fs (frame_file path_images i) = Some (Png img)"
    by simp
  from Cons.IH [OF this, of "acc @ [img]"] obtain imgs where
    "read_images fs path_images js (acc @ [img]) = Inr ((acc @ [img]) @ imgs)"
    "length imgs = length js" by blast
  with img have "read_images fs path_images (j # js) acc = Inr (acc @ (img # imgs)) \<and>
    length (img # imgs) = length (j # js)"
    by (simp add: imread_def)
  then show ?case by blast
qed

lemma read_images_missing:
  "i \<in> set is \<Longrightarrow> fs (frame_file path_images i) = None \<Longrightarrow>
   \<exists>e. read_images fs path_images is acc = Inl e"
  by (induction "is" arbitrary: acc) (auto simp: imread_def split: sum.splits)

section \<open>Hour-minute codes\<close>










section \<open>Frame Renderer and Animation Compositor\<close>

lemma frame_file_0800: "frame_file p 28800 = p @ ''/0800.png''"
  by (simp add: frame_file_def strftime_HM_def two_digits_def hour_def minute_def)

lemma frame_file_0801: "frame_file p 28860 = p @ ''/0801.png''"
  by (simp add: frame_file_def strftime_HM_def two_digits_def hour_def minute_def)






text \<open>
  C8. If some sample timestamp has no frame file at the output location, \<open>create_gif\<close>
  ends with an exception and the file system is as before: no animation is written, and
  the frames that are present are not composited.
\<close>

theorem missing_frame_is_fatal:
  assumes "t \<in> fst ` set gdf_pos" and "fs (frame_file path_images t) = None"
  shows "\<exists>e. create_gif gdf_pos path_images path_gif fs = (Inl e, fs)"
proof -
  from assms(1) have "t \<in> set (index_unique gdf_pos)" by (simp add: set_index_unique)
  then have "\<exists>e. read_images fs path_images (index_unique gdf_pos) [] = Inl e"
    using assms(2) by (rule read_images_missing)
  then show ?thesis by (auto simp add: create_gif_def)
qed

theorem missing_frame_is_fatal_witness:
  "28800 \<in> fst ` set one_minute \<and> (Map.empty :: frame_spec filesystem) (frame_file ''d'' 28800) = None \<and>
   create_gif one_minute ''d'' ''d.gif'' (Map.empty :: frame_spec filesystem)
     = (Inl (FileNotFoundError ''d/0800.png''), Map.empty)"
  using missing_frame_is_fatal [of 28800 one_minute "Map.empty :: frame_spec filesystem" "''d''" "''d.gif''"]
  by (simp add: one_minute_def create_gif_def index_unique_def imread_def frame_file_0800)

text \<open>
  C10. After \<open>create_maps\<close> has completed on a table and a directory, \<open>create_gif\<close> on
  the same table and directory reads an image for every distinct sample timestamp; it
  never ends with \<open>FileNotFoundError\<close>.
\<close>

theorem rendered_frames_are_found:
  assumes "create_maps render gdf_lines gdf_pos xl yl path_images fs = (Inr (), fs')"
  shows "(\<exists>imgs. read_images fs' path_images (index_unique gdf_pos) [] = Inr imgs \<and>
                 length imgs = length (index_unique gdf_pos)) \<and>
         (\<forall>p. fst (create_gif gdf_pos path_images path_gif fs') \<noteq> Inl (FileNotFoundError p))"
proof -
  let ?is = "index_unique gdf_pos"
  from assms have ok: "fst (create_maps_loop render gdf_lines gdf_pos xl yl path_images ?is fs) = Inr ()"
    and fs': "snd (create_maps_loop render gdf_lines gdf_pos xl yl path_images ?is fs) = fs'"
    by (simp_all add: create_maps_def)
  have "\<forall>i \<in> set ?is. \<exists>img. fs' (frame_file path_images i) = Some (Png img)"
    using create_maps_loop_written [OF ok] fs' by auto
  from read_images_ok [OF this, of "[]"]
  obtain imgs where r: "read_images fs' path_images ?is [] = Inr imgs"
    and l: "length imgs = length ?is" by auto
  from r have "\<forall>p. fst (create_gif gdf_pos path_images path_gif fs') \<noteq> Inl (FileNotFoundError p)"
    by (simp add: create_gif_def mimsave_def)
  with r l show ?thesis by blast
qed

theorem rendered_frames_are_found_witness:
  "create_maps Inr [] two_minutes (0, 1) (0, 1) ''d'' Map.empty
     = (Inr (), snd (create_maps Inr [] two_minutes (0, 1) (0, 1) ''d'' Map.empty)) \<and>
   fst (create_gif two_minutes ''d'' ''d.gif''
          (snd (create_maps Inr [] two_minutes (0, 1) (0, 1) ''d'' Map.empty))) = Inr ()"
  using rendered_frames_are_found [of Inr "[]" two_minutes "(0, 1)" "(0, 1)" "''d''" Map.empty
      "snd (create_maps Inr [] two_minutes (0, 1) (0, 1) ''d'' Map.empty)" "''d.gif''"]
  by (simp add: create_maps_def create_gif_def mimsave_def imread_def index_unique_def
      two_minutes_def frame_file_0800 frame_file_0801)

text \<open>
  C4. The notebook's calls, run on one sampled position at 08:00 with a renderer that
  returns what it was asked to draw: the animation written at
  \<open>data/greater_portland.gif\<close> consists of the frame drawn for the downtown extent,
  while the frame drawn for the regional extent lies unread in \<open>data/greater_portland\<close>.
\<close>

theorem regional_gif_shows_downtown:
  "snd (cells_11_to_15 Inr [] one_minute Map.empty) ''data/greater_portland.gif''
     = Some (Gif [\<lparr> xlim = xlim_downtown, ylim = ylim_downtown, lines = [],
                     positions = one_minute, label = ''08:00'' \<rparr>] 10) \<and>
   snd (cells_11_to_15 Inr [] one_minute Map.empty) ''data/greater_portland/0800.png''
     = Some (Png \<lparr> xlim = xlim_greater_portland, ylim = ylim_greater_portland, lines = [],
                    positions = one_minute, label = ''08:00'' \<rparr>) \<and>
   xlim_downtown \<noteq> xlim_greater_portland"
  by (simp add: cells_11_to_15_def and_then_def create_maps_def create_gif_def mimsave_def
      imread_def index_unique_def loc_def one_minute_def frame_file_0800
      path_images_downtown_def path_images_greater_portland_def
      strftime_H_M_def two_digits_def hour_def minute_def
      xlim_downtown_def xlim_greater_portland_def)

end
